theory Spec2Isabelle
  imports Main "HOL-Library.AList"
begin

section \<open>The manifest updater \<^verbatim>\<open>scripts/update_repo_json.py\<close>\<close>

text \<open>
  The script loads \<^verbatim>\<open>repo.json\<close>, rewrites the first app's top-level fields and its
  version history for a new release, and dumps the document back. The embedding below
  follows \<^verbatim>\<open>main\<close> line by line: every \<^verbatim>\<open>return\<close> and every exception that a
  loaded document can provoke is a branch of the model.
\<close>

subsection \<open>Values produced by \<^verbatim>\<open>json.load\<close>\<close>

text \<open>
  A loaded document is a tree of \<^verbatim>\<open>None\<close>, \<^verbatim>\<open>bool\<close>, \<^verbatim>\<open>int\<close>, \<^verbatim>\<open>str\<close>,
  \<^verbatim>\<open>list\<close> and \<^verbatim>\<open>dict\<close> values. A \<^verbatim>\<open>dict\<close> keeps its keys in insertion order, so
  it is an association list; \<open>AList.update\<close> overwrites an existing key in place and
  appends a new one, as assignment to \<^verbatim>\<open>d[k]\<close> does. Python's \<^verbatim>\<open>None\<close> and JSON's
  \<^verbatim>\<open>null\<close> are the same value \<open>JNull\<close>. Numbers with a fraction or an exponent (Python
  \<^verbatim>\<open>float\<close>) are outside the model.
\<close>

datatype json =
    JNull
  | JBool bool
  | JInt int
  | JStr string
  | JArr "json list"
  | JObj "(string \<times> json) list"

datatype exc = JSONDecodeError | AttributeError | KeyError | TypeError | IndexError | NameError

text \<open>Truth value testing, as \<^verbatim>\<open>if x\<close>, \<^verbatim>\<open>x or y\<close> and \<^verbatim>\<open>x and y\<close> apply it.\<close>

fun truthy :: "json \<Rightarrow> bool" where
  "truthy JNull = False"
| "truthy (JBool b) = b"
| "truthy (JInt n) = (n \<noteq> 0)"
| "truthy (JStr s) = (s \<noteq> [])"
| "truthy (JArr xs) = (xs \<noteq> [])"
| "truthy (JObj fs) = (fs \<noteq> [])"

text \<open>\<^verbatim>\<open>d.get(k)\<close> on a dict: the value, or \<^verbatim>\<open>None\<close> when the key is missing.\<close>

definition dict_get :: "(string \<times> json) list \<Rightarrow> string \<Rightarrow> json" where
  "dict_get fs k = (case map_of fs k of None \<Rightarrow> JNull | Some v \<Rightarrow> v)"

text \<open>\<^verbatim>\<open>x.get(k)\<close> on any loaded value: only a dict has the method.\<close>

fun py_get :: "json \<Rightarrow> string \<Rightarrow> exc + json" where
  "py_get (JObj fs) k = Inr (dict_get fs k)"
| "py_get _ k = Inl AttributeError"

text \<open>\<^verbatim>\<open>x[k]\<close> with a string key \<open>k\<close>.\<close>

fun getitem :: "json \<Rightarrow> string \<Rightarrow> exc + json" where
  "getitem (JObj fs) k = (case map_of fs k of None \<Rightarrow> Inl KeyError | Some v \<Rightarrow> Inr v)"
| "getitem _ k = Inl TypeError"

text \<open>\<^verbatim>\<open>x[k] = v\<close> with a string key \<open>k\<close>.\<close>

fun setitem :: "json \<Rightarrow> string \<Rightarrow> json \<Rightarrow> exc + json" where
  "setitem (JObj fs) k v = Inr (JObj (AList.update k v fs))"
| "setitem _ k v = Inl TypeError"

text \<open>\<^verbatim>\<open>len(x)\<close>.\<close>

fun py_len :: "json \<Rightarrow> exc + nat" where
  "py_len (JArr xs) = Inr (length xs)"
| "py_len (JObj fs) = Inr (length fs)"
| "py_len (JStr s) = Inr (length s)"
| "py_len _ = Inl TypeError"

text \<open>
  \<^verbatim>\<open>x[0]\<close>: the first element of a list, the first character of a string; a loaded dict has
  string keys only, so the key \<^verbatim>\<open>0\<close> is never found.
\<close>

fun item0 :: "json \<Rightarrow> exc + json" where
  "item0 (JArr []) = Inl IndexError"
| "item0 (JArr (x # xs)) = Inr x"
| "item0 (JStr []) = Inl IndexError"
| "item0 (JStr (c # cs)) = Inr (JStr [c])"
| "item0 (JObj fs) = Inl KeyError"
| "item0 _ = Inl TypeError"

text \<open>\<^verbatim>\<open>x.insert(0, v)\<close>: a method of lists only.\<close>

fun insert0 :: "json \<Rightarrow> json \<Rightarrow> exc + json" where
  "insert0 v (JArr xs) = Inr (JArr (v # xs))"
| "insert0 v _ = Inl AttributeError"

text \<open>
  \<^verbatim>\<open>x[0] = v\<close>. On a dict the assignment would add the integer key \<^verbatim>\<open>0\<close>, which a
  \<open>json\<close> value cannot hold; \<^verbatim>\<open>main\<close> assigns only after it has read \<^verbatim>\<open>x[0]\<close>, which
  fails on a dict, so that equation is never used by a run.
\<close>

fun setitem0 :: "json \<Rightarrow> json \<Rightarrow> exc + json" where
  "setitem0 v (JArr []) = Inl IndexError"
| "setitem0 v (JArr (x # xs)) = Inr (JArr (v # xs))"
| "setitem0 v (JObj fs) = Inl KeyError"
| "setitem0 v _ = Inl TypeError"

text \<open>
  \<^verbatim>\<open>x == y\<close> and \<^verbatim>\<open>x != y\<close>. \<^verbatim>\<open>bool\<close> is a subclass of \<^verbatim>\<open>int\<close>, so \<^verbatim>\<open>True == 1\<close>.
  Every other pair of scalars is equal only when the two are the same value of the same
  type. Containers are compared structurally, which is exact whenever the right operand
  is a scalar or the left operand itself: \<^verbatim>\<open>main\<close> compares against a \<^verbatim>\<open>str\<close>, an
  \<^verbatim>\<open>int\<close>, or the object it has just read.
\<close>

fun py_eq :: "json \<Rightarrow> json \<Rightarrow> bool" where
  "py_eq (JBool a) (JInt n) = ((if a then 1 else 0) = n)"
| "py_eq (JInt n) (JBool a) = ((if a then 1 else 0) = n)"
| "py_eq x y = (x = y)"

definition py_ne :: "json \<Rightarrow> json \<Rightarrow> bool" where
  "py_ne x y = (\<not> py_eq x y)"

text \<open>Sequencing of steps that may raise: the first exception ends the computation.\<close>

fun andthen :: "exc + 'a \<Rightarrow> ('a \<Rightarrow> exc + 'b) \<Rightarrow> exc + 'b" where
  "andthen (Inl e) f = Inl e"
| "andthen (Inr v) f = f v"

subsection \<open>Strings\<close>

text \<open>
  \<^verbatim>\<open>a or b\<close> on an optional string (\<^verbatim>\<open>None\<close> when the flag or the environment variable
  is missing): the empty string is false, so the fallback is taken for it too.
\<close>

definition or_else :: "string option \<Rightarrow> string option \<Rightarrow> string option" where
  "or_else a b = (case a of None \<Rightarrow> b | Some s \<Rightarrow> if s = [] then b else Some s)"

text \<open>\<^verbatim>\<open>str.isspace\<close> on the code points below 256, and \<^verbatim>\<open>str.strip()\<close>.\<close>

definition isspace :: "char \<Rightarrow> bool" where
  "isspace c = (c \<in> set [CHR 0x09, CHR 0x0A, CHR 0x0B, CHR 0x0C, CHR 0x0D,
                          CHR 0x1C, CHR 0x1D, CHR 0x1E, CHR 0x1F, CHR 0x20,
                          CHR 0x85, CHR 0xA0])"

definition strip :: "string \<Rightarrow> string" where
  "strip s = rev (dropWhile isspace (rev (dropWhile isspace s)))"

fun join :: "string \<Rightarrow> string list \<Rightarrow> string" where
  "join sep [] = []"
| "join sep [x] = x"
| "join sep (x # y # ys) = x @ sep @ join sep (y # ys)"

definition new_localized :: "string \<Rightarrow> string option \<Rightarrow> string" where
  "new_localized release release_notes =
     (let parts = [''This version includes the ApolloICA tweak version: '' @ release @
                   '' patched with Liquid Glass support.''];
          parts = (case release_notes of
                     None \<Rightarrow> parts
                   | Some notes \<Rightarrow> if notes = [] then parts else parts @ [notes])
      in strip (join [CHR 0x0A, CHR 0x0A] parts))"

subsection \<open>The run\<close>

text \<open>
  What a run is given: the parsed command line, the three environment variables, the
  clock reading of line 70 already rendered by \<^verbatim>\<open>isoformat()\<close>, and the file
  \<^verbatim>\<open>repo.json\<close>: missing, present but rejected by \<^verbatim>\<open>json.load\<close>, or a document.
\<close>

datatype repo_file = Missing | Unparsable | Document json

record invocation =
  arg_release_tag :: "string option"
  arg_catbox_url :: "string option"
  arg_release_notes :: "string option"
  arg_size :: "int option"
  env_RELEASE_TAG :: "string option"
  env_CATBOX_URL :: "string option"
  env_RELEASE_NOTES :: "string option"
  clock :: string
  repo_json :: repo_file

text \<open>
  What a run leaves behind: how \<^verbatim>\<open>main\<close> ended, the lines printed to standard output,
  and the document dumped to \<^verbatim>\<open>repo.json\<close> (\<open>None\<close> when the file was not opened for
  writing). \<^verbatim>\<open>raise SystemExit(main())\<close> turns the returned integer into the exit
  status; an uncaught exception prints a traceback to standard error and exits with
  status 1.
\<close>

datatype status = Returned int | Raised exc

record outcome =
  status :: status
  stdout :: "string list"
  written :: "json option"

fun exit_code :: "status \<Rightarrow> int" where
  "exit_code (Returned n) = n"
| "exit_code (Raised e) = 1"

definition returns :: "int \<Rightarrow> string \<Rightarrow> outcome" where
  "returns n msg = \<lparr>status = Returned n, stdout = [msg], written = None\<rparr>"

definition raises :: "exc \<Rightarrow> outcome" where
  "raises e = \<lparr>status = Raised e, stdout = [], written = None\<rparr>"

text \<open>Line 59: \<^verbatim>\<open>catbox if catbox else app.get('downloadURL') or ''\<close>.\<close>

definition new_download :: "string option \<Rightarrow> json \<Rightarrow> exc + json" where
  "new_download catbox app =
     (let fallback = andthen (py_get app ''downloadURL'')
                       (\<lambda>d. Inr (if truthy d then d else JStr []))
      in case catbox of
           None \<Rightarrow> fallback
         | Some u \<Rightarrow> if u = [] then fallback else Inr (JStr u))"

text \<open>Lines 81 to 83: the previous topmost version entry, \<^verbatim>\<open>None\<close> when there is none.\<close>

definition prev_version :: "json \<Rightarrow> exc + json" where
  "prev_version app =
     andthen (py_get app ''versions'') (\<lambda>vs.
       if truthy vs then
         andthen (getitem app ''versions'') (\<lambda>vs.
         andthen (py_len vs) (\<lambda>n.
           if n > 0 then andthen (getitem app ''versions'') item0 else Inr JNull))
       else Inr JNull)"

text \<open>Lines 85 to 96: the new version entry.\<close>

definition new_version_obj :: "json \<Rightarrow> int \<Rightarrow> string \<Rightarrow> string \<Rightarrow> string \<Rightarrow> json \<Rightarrow> exc + json" where
  "new_version_obj download new_size release date_iso localized prev =
     (let obj = JObj [(''downloadURL'', download),
                      (''size'', JInt new_size),
                      (''version'', JStr release),
                      (''buildVersion'', JStr ''1''),
                      (''date'', JStr date_iso),
                      (''localizedDescription'', JStr localized)]
      in if truthy prev then
           andthen (py_get prev ''minOSVersion'') (\<lambda>m.
             if truthy m then setitem obj ''minOSVersion'' m else Inr obj)
         else Inr obj)"

text \<open>
  Lines 101 to 115, one field at a time: \<^verbatim>\<open>if app.get(k) != v: app[k] = v; changed = True\<close>.
  The state is the app object and the flag \<^verbatim>\<open>changed\<close>.
\<close>

definition assign_if_differs :: "string \<Rightarrow> json \<Rightarrow> json \<times> bool \<Rightarrow> exc + json \<times> bool" where
  "assign_if_differs k v st =
     (case st of (app, changed) \<Rightarrow>
        andthen (py_get app k) (\<lambda>old.
          if py_ne old v then andthen (setitem app k v) (\<lambda>app'. Inr (app', True))
          else Inr (app, changed)))"

text \<open>Line 123: the \<^verbatim>\<open>version\<close> of the topmost entry, \<^verbatim>\<open>None\<close> for an empty history.\<close>

definition top_version :: "json \<Rightarrow> exc + json" where
  "top_version versions =
     (if truthy versions then
        andthen (py_len versions) (\<lambda>n.
          if n > 0 then andthen (item0 versions) (\<lambda>v. py_get v ''version'') else Inr JNull)
      else Inr JNull)"

text \<open>
  Lines 118 to 130. The list \<^verbatim>\<open>app['versions']\<close> is changed in place, so the app object
  holds the changed list under the same key afterwards.
\<close>

definition update_versions :: "string \<Rightarrow> json \<Rightarrow> json \<times> bool \<Rightarrow> exc + json \<times> bool" where
  "update_versions release new_obj st =
     (case st of (app, changed) \<Rightarrow>
        andthen (py_get app ''versions'') (\<lambda>versions.
          if versions = JNull then
            andthen (setitem app ''versions'' (JArr [new_obj])) (\<lambda>app'. Inr (app', True))
          else
            andthen (top_version versions) (\<lambda>top.
              if py_ne top (JStr release) then
                andthen (getitem app ''versions'') (\<lambda>vs.
                andthen (insert0 new_obj vs) (\<lambda>vs'.
                andthen (setitem app ''versions'' vs') (\<lambda>app'. Inr (app', True))))
              else
                andthen (getitem app ''versions'') (\<lambda>vs.
                andthen (setitem0 new_obj vs) (\<lambda>vs'.
                andthen (setitem app ''versions'' vs') (\<lambda>app'. Inr (app', True)))))))"

text \<open>
  Lines 59 to 130 on the selected app. Line 66 calls \<^verbatim>\<open>printf\<close>, a name that Python does
  not define: the call raises \<^verbatim>\<open>NameError\<close> before anything is printed, and the
  \<^verbatim>\<open>return 1\<close> of line 67 is never reached.
\<close>

definition update_app ::
  "string \<Rightarrow> string option \<Rightarrow> string option \<Rightarrow> int option \<Rightarrow> string \<Rightarrow> json \<Rightarrow> exc + json \<times> bool" where
  "update_app release catbox release_notes provided_size date_iso app =
     andthen (new_download catbox app) (\<lambda>download.
       case provided_size of
         None \<Rightarrow> Inl NameError
       | Some new_size \<Rightarrow>
           andthen (prev_version app) (\<lambda>prev.
           andthen (new_version_obj download new_size release date_iso
                      (new_localized release release_notes) prev) (\<lambda>new_obj.
           andthen (assign_if_differs ''version'' (JStr release) (app, False)) (\<lambda>st.
           andthen (assign_if_differs ''versionDate'' (JStr date_iso) st) (\<lambda>st.
           andthen (assign_if_differs ''downloadURL'' download st) (\<lambda>st.
           andthen (assign_if_differs ''size'' (JInt new_size) st) (\<lambda>st.
           update_versions release new_obj st)))))))"

text \<open>
  \<^verbatim>\<open>app\<close> is the object \<^verbatim>\<open>data['apps'][0]\<close> itself, so what \<^verbatim>\<open>json.dump(data)\<close> writes
  is the loaded document with the changed app in that place. When \<^verbatim>\<open>apps\<close> is not a
  list, \<^verbatim>\<open>apps[0]\<close> is no part of the document and the document is as loaded.
\<close>

fun store_app :: "json \<Rightarrow> json \<Rightarrow> json" where
  "store_app (JObj root) app' =
     (case dict_get root ''apps'' of
        JArr (a # rest) \<Rightarrow> JObj (AList.update ''apps'' (JArr (app' # rest)) root)
      | _ \<Rightarrow> JObj root)"
| "store_app data app' = data"

definition main :: "invocation \<Rightarrow> outcome" where
  "main call =
     (let release = or_else (arg_release_tag call) (env_RELEASE_TAG call);
          catbox = or_else (arg_catbox_url call) (env_CATBOX_URL call);
          release_notes = or_else (arg_release_notes call) (env_RELEASE_NOTES call);
          provided_size = arg_size call;
          nothing_to_do = returns 0 ''RELEASE_TAG not provided; nothing to do''
      in case repo_json call of
           Missing \<Rightarrow> returns 1 ''repo.json not found at repo.json''
         | Unparsable \<Rightarrow> raises JSONDecodeError
         | Document data \<Rightarrow>
             (case release of
                None \<Rightarrow> nothing_to_do
              | Some tag \<Rightarrow>
                  if tag = [] then nothing_to_do
                  else
                    (case py_get data ''apps'' of
                       Inl e \<Rightarrow> raises e
                     | Inr a \<Rightarrow>
                         let apps = (if truthy a then a else JArr []) in
                         if \<not> truthy apps then returns 1 ''No apps array found in repo.json''
                         else
                           (case andthen (item0 apps)
                                   (update_app tag catbox release_notes provided_size (clock call)) of
                              Inl e \<Rightarrow> raises e
                            | Inr (app', changed) \<Rightarrow>
                                if changed then
                                  \<lparr>status = Returned 0, stdout = [''repo.json updated''],
                                   written = Some (store_app data app')\<rparr>
                                else
                                  \<lparr>status = Returned 0,
                                   stdout = [''No changes required for repo.json''],
                                   written = None\<rparr>))))"

subsection \<open>Reading a document\<close>

text \<open>
  Observations used to state properties: the value of a field of an object (\<open>None\<close> when
  the field is missing or the value is no object), the first app of a manifest, and the
  version history of that app.
\<close>

fun field_of :: "string \<Rightarrow> json \<Rightarrow> json option" where
  "field_of k (JObj fs) = map_of fs k"
| "field_of k _ = None"

definition first_app :: "json \<Rightarrow> json option" where
  "first_app doc = (case field_of ''apps'' doc of Some (JArr (a # rest)) \<Rightarrow> Some a | _ \<Rightarrow> None)"

definition versions_of :: "json \<Rightarrow> json list option" where
  "versions_of doc =
     (case first_app doc of
        Some app \<Rightarrow> (case field_of ''versions'' app of Some (JArr vs) \<Rightarrow> Some vs | _ \<Rightarrow> None)
      | None \<Rightarrow> None)"

subsection \<open>Sample runs\<close>

text \<open>
  The manifest of the worked example: one app at version 1.0 whose history holds that one
  version.
\<close>

definition old_entry :: json where
  "old_entry = JObj [(''version'', JStr ''1.0''), (''size'', JInt 10),
                     (''downloadURL'', JStr ''old''), (''buildVersion'', JStr ''1''),
                     (''date'', JStr ''2024-01-01T00:00:00+00:00''),
                     (''localizedDescription'', JStr ''old desc'')]"

definition example_manifest :: json where
  "example_manifest =
     JObj [(''apps'', JArr [JObj [(''version'', JStr ''1.0''), (''downloadURL'', JStr ''old''),
                                  (''size'', JInt 10), (''versions'', JArr [old_entry])]])]"

text \<open>A manifest with one app whose history is the given list, and one with no history.\<close>

definition manifest_with :: "json list \<Rightarrow> json" where
  "manifest_with vs =
     JObj [(''apps'', JArr [JObj [(''version'', JStr ''1.0''), (''versions'', JArr vs)]])]"

definition manifest_without_versions :: json where
  "manifest_without_versions = JObj [(''apps'', JArr [JObj [(''version'', JStr ''1.0'')]])]"

text \<open>A version entry 1.0 that carries the given \<^verbatim>\<open>minOSVersion\<close>.\<close>

definition entry_with_min :: "string \<Rightarrow> (string \<times> json) list" where
  "entry_with_min m = [(''version'', JStr ''1.0''), (''minOSVersion'', JStr m)]"

text \<open>
  \<^verbatim>\<open>--release-tag t --catbox-url https://x/y --size 999\<close> (the flags left out when
  \<open>None\<close>), with an empty environment, on the given file.
\<close>

definition invoke :: "string option \<Rightarrow> int option \<Rightarrow> repo_file \<Rightarrow> invocation" where
  "invoke tag sz file =
     \<lparr>arg_release_tag = tag, arg_catbox_url = Some ''https://x/y'', arg_release_notes = None,
      arg_size = sz, env_RELEASE_TAG = None, env_CATBOX_URL = None,
      env_RELEASE_NOTES = None, clock = ''2025-06-01T12:00:00+00:00'', repo_json = file\<rparr>"

section \<open>Properties\<close>

subsection \<open>Auxiliary facts about the steps of a run\<close>

lemma py_ne_str: "py_ne x (JStr s) = (x \<noteq> JStr s)"
  by (cases x) (simp_all add: py_ne_def)

lemma assign_if_differs_obj:
  "assign_if_differs k v (JObj fs, c) =
     Inr (if py_ne (dict_get fs k) v then (JObj (AList.update k v fs), True) else (JObj fs, c))"
  by (simp add: assign_if_differs_def)

lemma assign_if_differs_keeps:
  assumes "k \<noteq> k'"
  shows "\<exists>fs' c'. assign_if_differs k v (JObj fs, c) = Inr (JObj fs', c') \<and>
           map_of fs' k' = map_of fs k'"
  using assms by (cases "py_ne (dict_get fs k) v") (auto simp add: assign_if_differs_obj update_conv')

lemma top_level_fields:
  "\<exists>fs' c'.
     andthen (assign_if_differs ''version'' v1 (JObj fs, False)) (\<lambda>st.
     andthen (assign_if_differs ''versionDate'' v2 st) (\<lambda>st.
     andthen (assign_if_differs ''downloadURL'' v3 st) (\<lambda>st.
     andthen (assign_if_differs ''size'' v4 st) K))) = K (JObj fs', c') \<and>
     map_of fs' ''versions'' = map_of fs ''versions''"
proof -
  obtain f1 c1 where 1: "assign_if_differs ''version'' v1 (JObj fs, False) = Inr (JObj f1, c1)"
    and m1: "map_of f1 ''versions'' = map_of fs ''versions''"
    using assign_if_differs_keeps [of "''version''" "''versions''" v1 fs False] by auto
  obtain f2 c2 where 2: "assign_if_differs ''versionDate'' v2 (JObj f1, c1) = Inr (JObj f2, c2)"
    and m2: "map_of f2 ''versions'' = map_of f1 ''versions''"
    using assign_if_differs_keeps [of "''versionDate''" "''versions''" v2 f1 c1] by auto
  obtain f3 c3 where 3: "assign_if_differs ''downloadURL'' v3 (JObj f2, c2) = Inr (JObj f3, c3)"
    and m3: "map_of f3 ''versions'' = map_of f2 ''versions''"
    using assign_if_differs_keeps [of "''downloadURL''" "''versions''" v3 f2 c2] by auto
  obtain f4 c4 where 4: "assign_if_differs ''size'' v4 (JObj f3, c3) = Inr (JObj f4, c4)"
    and m4: "map_of f4 ''versions'' = map_of f3 ''versions''"
    using assign_if_differs_keeps [of "''size''" "''versions''" v4 f3 c3] by auto
  have "andthen (assign_if_differs ''version'' v1 (JObj fs, False)) (\<lambda>st.
     andthen (assign_if_differs ''versionDate'' v2 st) (\<lambda>st.
     andthen (assign_if_differs ''downloadURL'' v3 st) (\<lambda>st.
     andthen (assign_if_differs ''size'' v4 st) K))) = K (JObj f4, c4)"
    using 1 2 3 4 by simp
  moreover have "map_of f4 ''versions'' = map_of fs ''versions''"
    using m1 m2 m3 m4 by simp
  ultimately show ?thesis by blast
qed

lemma new_download_obj: "\<exists>d. new_download catbox (JObj fs) = Inr d"
  by (simp add: new_download_def Let_def split: option.splits)

lemma prev_version_absent:
  "dict_get fs ''versions'' = JNull \<Longrightarrow> prev_version (JObj fs) = Inr JNull"
  by (simp add: prev_version_def)

lemma prev_version_empty:
  "map_of fs ''versions'' = Some (JArr []) \<Longrightarrow> prev_version (JObj fs) = Inr JNull"
  by (simp add: prev_version_def dict_get_def)

lemma prev_version_first:
  "map_of fs ''versions'' = Some (JArr (v # vs)) \<Longrightarrow> prev_version (JObj fs) = Inr v"
  by (simp add: prev_version_def dict_get_def)

lemma update_versions_absent:
  assumes "dict_get fs ''versions'' = JNull"
  shows "update_versions release new (JObj fs, c) =
           Inr (JObj (AList.update ''versions'' (JArr [new]) fs), True)"
  using assms by (simp add: update_versions_def)

lemma update_versions_empty:
  assumes "map_of fs ''versions'' = Some (JArr [])"
  shows "update_versions release new (JObj fs, c) =
           Inr (JObj (AList.update ''versions'' (JArr [new]) fs), True)"
  using assms by (simp add: update_versions_def dict_get_def top_version_def py_ne_str)

lemma update_versions_differs:
  assumes "map_of fs ''versions'' = Some (JArr (JObj v0 # vs))"
    and "dict_get v0 ''version'' \<noteq> JStr release"
  shows "update_versions release new (JObj fs, c) =
           Inr (JObj (AList.update ''versions'' (JArr (new # JObj v0 # vs)) fs), True)"
  using assms by (simp add: update_versions_def dict_get_def top_version_def py_ne_str)

lemma update_versions_same:
  assumes "map_of fs ''versions'' = Some (JArr (JObj v0 # vs))"
    and "dict_get v0 ''version'' = JStr release"
  shows "update_versions release new (JObj fs, c) =
           Inr (JObj (AList.update ''versions'' (JArr (new # vs)) fs), True)"
  using assms by (simp add: update_versions_def dict_get_def top_version_def py_ne_str)


lemma new_version_obj_null:
  "new_version_obj d n r dt loc JNull =
     Inr (JObj [(''downloadURL'', d), (''size'', JInt n), (''version'', JStr r),
                (''buildVersion'', JStr ''1''), (''date'', JStr dt),
                (''localizedDescription'', JStr loc)])"
  by (simp add: new_version_obj_def)

lemma new_version_obj_obj:
  "new_version_obj d n r dt loc (JObj p) =
     Inr (JObj ([(''downloadURL'', d), (''size'', JInt n), (''version'', JStr r),
                 (''buildVersion'', JStr ''1''), (''date'', JStr dt),
                 (''localizedDescription'', JStr loc)] @
                (if truthy (dict_get p ''minOSVersion'')
                 then [(''minOSVersion'', dict_get p ''minOSVersion'')] else [])))"
  by (cases "p = []") (simp_all add: new_version_obj_def dict_get_def)

lemma update_app_obj:
  assumes "new_download catbox (JObj fs) = Inr d"
    and "prev_version (JObj fs) = Inr prev"
    and "new_version_obj d n release dt (new_localized release notes) prev = Inr new"
  shows "\<exists>fs' c. update_app release catbox notes (Some n) dt (JObj fs) =
                    update_versions release new (JObj fs', c) \<and>
                  map_of fs' ''versions'' = map_of fs ''versions''"
  using assms
    top_level_fields [of "JStr release" fs "JStr dt" d "JInt n" "update_versions release new"]
  by (simp add: update_app_def)

lemma main_on_first_app:
  assumes "repo_json call = Document (JObj root)"
    and "dict_get root ''apps'' = JArr (app # rest)"
    and "or_else (arg_release_tag call) (env_RELEASE_TAG call) = Some release"
    and "release \<noteq> []"
  shows "main call =
          (case update_app release (or_else (arg_catbox_url call) (env_CATBOX_URL call))
                  (or_else (arg_release_notes call) (env_RELEASE_NOTES call))
                  (arg_size call) (clock call) app of
             Inl e \<Rightarrow> raises e
           | Inr (app', changed) \<Rightarrow>
               if changed then
                 \<lparr>status = Returned 0, stdout = [''repo.json updated''],
                  written = Some (JObj (AList.update ''apps'' (JArr (app' # rest)) root))\<rparr>
               else
                 \<lparr>status = Returned 0, stdout = [''No changes required for repo.json''],
                  written = None\<rparr>)"
  using assms by (simp add: main_def Let_def split: sum.splits prod.splits)


lemma dict_get_arr: "dict_get fs k = JArr xs \<Longrightarrow> map_of fs k = Some (JArr xs)"
  by (simp add: dict_get_def split: option.splits)

lemma dict_get_cong: "map_of fs' k = map_of fs k \<Longrightarrow> dict_get fs' k = dict_get fs k"
  by (simp add: dict_get_def)

lemma new_version_obj_entry:
  assumes "prev = JNull \<or> (\<exists>p. prev = JObj p)"
  shows "\<exists>new. new_version_obj d n r dt loc prev = Inr new"
  using assms by (auto simp add: new_version_obj_null new_version_obj_obj)

lemma update_app_wellformed:
  assumes d: "new_download catbox (JObj fs) = Inr d"
    and shape: "dict_get fs ''versions'' = JNull \<or> dict_get fs ''versions'' = JArr [] \<or>
                (\<exists>p vs. dict_get fs ''versions'' = JArr (JObj p # vs))"
  shows "\<exists>prev new fs'.
           prev_version (JObj fs) = Inr prev \<and>
           new_version_obj d n release dt (new_localized release notes) prev = Inr new \<and>
           update_app release catbox notes (Some n) dt (JObj fs) =
             Inr (JObj (AList.update ''versions''
                    (JArr (case dict_get fs ''versions'' of
                             JArr (JObj p # vs) \<Rightarrow>
                               if dict_get p ''version'' = JStr release then new # vs
                               else new # JObj p # vs
                           | _ \<Rightarrow> [new])) fs'), True)"
proof -
  let ?loc = "new_localized release notes"
  from shape consider
      (absent) "dict_get fs ''versions'' = JNull"
    | (empty) "dict_get fs ''versions'' = JArr []"
    | (differs) p vs where "dict_get fs ''versions'' = JArr (JObj p # vs)"
        "dict_get p ''version'' \<noteq> JStr release"
    | (same) p vs where "dict_get fs ''versions'' = JArr (JObj p # vs)"
        "dict_get p ''version'' = JStr release"
    by blast
  then show ?thesis
  proof cases
    case absent
    have prev: "prev_version (JObj fs) = Inr JNull"
      using absent by (rule prev_version_absent)
    obtain new where new: "new_version_obj d n release dt ?loc JNull = Inr new"
      using new_version_obj_entry [of JNull] by blast
    obtain fs' c where run: "update_app release catbox notes (Some n) dt (JObj fs) =
        update_versions release new (JObj fs', c)"
      and keep: "map_of fs' ''versions'' = map_of fs ''versions''"
      using update_app_obj [OF d prev new] by blast
    have "dict_get fs' ''versions'' = JNull"
      using absent dict_get_cong [OF keep] by simp
    then have "update_versions release new (JObj fs', c) =
        Inr (JObj (AList.update ''versions'' (JArr [new]) fs'), True)"
      by (rule update_versions_absent)
    with run prev new absent show ?thesis by auto
  next
    case empty
    then have m: "map_of fs ''versions'' = Some (JArr [])"
      by (rule dict_get_arr)
    have prev: "prev_version (JObj fs) = Inr JNull"
      using m by (rule prev_version_empty)
    obtain new where new: "new_version_obj d n release dt ?loc JNull = Inr new"
      using new_version_obj_entry [of JNull] by blast
    obtain fs' c where run: "update_app release catbox notes (Some n) dt (JObj fs) =
        update_versions release new (JObj fs', c)"
      and keep: "map_of fs' ''versions'' = map_of fs ''versions''"
      using update_app_obj [OF d prev new] by blast
    have "update_versions release new (JObj fs', c) =
        Inr (JObj (AList.update ''versions'' (JArr [new]) fs'), True)"
      using keep m by (simp add: update_versions_empty)
    with run prev new empty show ?thesis by auto
  next
    case differs
    then have m: "map_of fs ''versions'' = Some (JArr (JObj p # vs))"
      by (simp add: dict_get_arr)
    have prev: "prev_version (JObj fs) = Inr (JObj p)"
      using m by (rule prev_version_first)
    obtain new where new: "new_version_obj d n release dt ?loc (JObj p) = Inr new"
      using new_version_obj_entry [of "JObj p"] by blast
    obtain fs' c where run: "update_app release catbox notes (Some n) dt (JObj fs) =
        update_versions release new (JObj fs', c)"
      and keep: "map_of fs' ''versions'' = map_of fs ''versions''"
      using update_app_obj [OF d prev new] by blast
    have "update_versions release new (JObj fs', c) =
        Inr (JObj (AList.update ''versions'' (JArr (new # JObj p # vs)) fs'), True)"
      using keep m differs(2) by (simp add: update_versions_differs)
    with run prev new differs show ?thesis by auto
  next
    case same
    then have m: "map_of fs ''versions'' = Some (JArr (JObj p # vs))"
      by (simp add: dict_get_arr)
    have prev: "prev_version (JObj fs) = Inr (JObj p)"
      using m by (rule prev_version_first)
    obtain new where new: "new_version_obj d n release dt ?loc (JObj p) = Inr new"
      using new_version_obj_entry [of "JObj p"] by blast
    obtain fs' c where run: "update_app release catbox notes (Some n) dt (JObj fs) =
        update_versions release new (JObj fs', c)"
      and keep: "map_of fs' ''versions'' = map_of fs ''versions''"
      using update_app_obj [OF d prev new] by blast
    have "update_versions release new (JObj fs', c) =
        Inr (JObj (AList.update ''versions'' (JArr (new # vs)) fs'), True)"
      using keep m same(2) by (simp add: update_versions_same)
    with run prev new same show ?thesis by auto
  qed
qed

subsection \<open>How a run can end\<close>

lemma andthen_eq_Inr: "(andthen x f = Inr y) = (\<exists>v. x = Inr v \<and> f v = Inr y)"
  by (cases x) simp_all

lemma update_versions_changed:
  "update_versions release new st = Inr (app', changed) \<Longrightarrow> changed"
  by (cases st) (auto simp add: update_versions_def andthen_eq_Inr split: if_splits)

lemma update_app_changed:
  "update_app release catbox notes sz dt app = Inr (app', changed) \<Longrightarrow> changed"
  by (auto simp add: update_app_def andthen_eq_Inr split: option.splits
      dest: update_versions_changed)

lemma update_app_needs_obj:
  "update_app release catbox notes sz dt app = Inr r \<Longrightarrow> \<exists>fs. app = JObj fs"
  by (cases app)
    (auto simp add: update_app_def andthen_eq_Inr prev_version_def split: option.splits)

lemma update_app_needs_size:
  "update_app release catbox notes sz dt app = Inr r \<Longrightarrow> \<exists>n. sz = Some n"
  by (cases "new_download catbox app"; cases sz) (simp_all add: update_app_def)

lemma item0_obj: "item0 a = Inr (JObj fs) \<Longrightarrow> \<exists>rest. a = JArr (JObj fs # rest)"
  by (cases a rule: item0.cases) simp_all

lemma main_missing: "repo_json call = Missing \<Longrightarrow> main call = returns 1 ''repo.json not found at repo.json''"
  by (simp add: main_def Let_def)

lemma main_unparsable: "repo_json call = Unparsable \<Longrightarrow> main call = raises JSONDecodeError"
  by (simp add: main_def Let_def)

lemma main_no_release:
  assumes "repo_json call = Document data"
    and "or_else (arg_release_tag call) (env_RELEASE_TAG call) = None \<or>
         or_else (arg_release_tag call) (env_RELEASE_TAG call) = Some []"
  shows "main call = returns 0 ''RELEASE_TAG not provided; nothing to do''"
  using assms by (auto simp add: main_def Let_def)

lemma main_document:
  assumes "repo_json call = Document data"
    and "or_else (arg_release_tag call) (env_RELEASE_TAG call) = Some release"
    and "release \<noteq> []"
  shows "main call =
          (case py_get data ''apps'' of
             Inl e \<Rightarrow> raises e
           | Inr a \<Rightarrow>
               if \<not> truthy a then returns 1 ''No apps array found in repo.json''
               else
                 (case andthen (item0 a)
                         (update_app release (or_else (arg_catbox_url call) (env_CATBOX_URL call))
                            (or_else (arg_release_notes call) (env_RELEASE_NOTES call))
                            (arg_size call) (clock call)) of
                    Inl e \<Rightarrow> raises e
                  | Inr (app', changed) \<Rightarrow>
                      if changed then
                        \<lparr>status = Returned 0, stdout = [''repo.json updated''],
                         written = Some (store_app data app')\<rparr>
                      else
                        \<lparr>status = Returned 0, stdout = [''No changes required for repo.json''],
                         written = None\<rparr>))"
  using assms by (simp add: main_def Let_def split: sum.splits)


lemma py_get_Inr: "py_get data k = Inr a \<Longrightarrow> \<exists>root. data = JObj root \<and> a = dict_get root k"
  by (cases data) simp_all

lemma main_cases [case_names failed raised nothing_to_do updated]:
  obtains
    (failed) msg where "main call = returns 1 msg"
      and "msg = ''repo.json not found at repo.json'' \<and> repo_json call = Missing \<or>
           msg = ''No apps array found in repo.json'' \<and> (\<exists>d. repo_json call = Document d)"
  | (raised) e where "main call = raises e" and "repo_json call \<noteq> Missing"
  | (nothing_to_do) data where "repo_json call = Document data"
      and "or_else (arg_release_tag call) (env_RELEASE_TAG call) = None \<or>
           or_else (arg_release_tag call) (env_RELEASE_TAG call) = Some []"
      and "main call = returns 0 ''RELEASE_TAG not provided; nothing to do''"
  | (updated) root fs rest release n app' where "repo_json call = Document (JObj root)"
      and "dict_get root ''apps'' = JArr (JObj fs # rest)"
      and "or_else (arg_release_tag call) (env_RELEASE_TAG call) = Some release"
      and "release \<noteq> []"
      and "arg_size call = Some n"
      and "update_app release (or_else (arg_catbox_url call) (env_CATBOX_URL call))
             (or_else (arg_release_notes call) (env_RELEASE_NOTES call))
             (arg_size call) (clock call) (JObj fs) = Inr (app', True)"
      and "main call = \<lparr>status = Returned 0, stdout = [''repo.json updated''],
             written = Some (JObj (AList.update ''apps'' (JArr (app' # rest)) root))\<rparr>"
proof (cases "repo_json call")
  case Missing
  then show ?thesis using failed main_missing by blast
next
  case Unparsable
  then show ?thesis using raised main_unparsable by force
next
  case (Document data)
  let ?release = "or_else (arg_release_tag call) (env_RELEASE_TAG call)"
  let ?upd = "update_app (the ?release) (or_else (arg_catbox_url call) (env_CATBOX_URL call))
                (or_else (arg_release_notes call) (env_RELEASE_NOTES call))
                (arg_size call) (clock call)"
  show ?thesis
  proof (cases "?release = None \<or> ?release = Some []")
    case True
    then show ?thesis using nothing_to_do main_no_release Document by blast
  next
    case False
    then obtain release where rel: "?release = Some release" "release \<noteq> []"
      by (cases ?release) auto
    note m = main_document [OF Document rel]
    show ?thesis
    proof (cases "py_get data ''apps''")
      case (Inl e)
      then have "main call = raises e" using m by simp
      then show ?thesis using raised Document by force
    next
      case (Inr a)
      then obtain root where root: "data = JObj root" "a = dict_get root ''apps''"
        using py_get_Inr by blast
      show ?thesis
      proof (cases "truthy a")
        case False
        then have "main call = returns 1 ''No apps array found in repo.json''"
          using m Inr by simp
        then show ?thesis using failed Document by blast
      next
        case True
        show ?thesis
        proof (cases "andthen (item0 a) ?upd")
          case (Inl e)
          then have "main call = raises e" using m Inr True rel by simp
          then show ?thesis using raised Document by force
        next
          case (Inr r)
          obtain app' changed where r: "r = (app', changed)" by (cases r)
          from Inr r obtain v where v: "item0 a = Inr v" "?upd v = Inr (app', changed)"
            by (auto simp add: andthen_eq_Inr)
          from v(2) rel have ch: "changed" by (auto dest: update_app_changed)
          from v(2) obtain fs where fs: "v = JObj fs" by (auto dest: update_app_needs_obj)
          from v(1) fs obtain rest where a: "a = JArr (JObj fs # rest)"
            using item0_obj by blast
          obtain n where n: "arg_size call = Some n"
            using v(2) update_app_needs_size by blast
          have apps: "dict_get root ''apps'' = JArr (JObj fs # rest)"
            using root a by simp
          then have store: "store_app data app' =
              JObj (AList.update ''apps'' (JArr (app' # rest)) root)"
            using root by simp
          have "main call = \<lparr>status = Returned 0, stdout = [''repo.json updated''],
             written = Some (store_app data app')\<rparr>"
            using m \<open>py_get data ''apps'' = Inr a\<close> True Inr r ch rel by simp
          then show ?thesis
            using updated [of root fs rest release n app'] Document root apps rel n v(2) fs ch
              store by simp
        qed
      qed
    qed
  qed
qed

subsection \<open>Runs on a manifest of the expected shape\<close>

lemma new_version_obj_version:
  "new_version_obj d n r dt loc prev = Inr new \<Longrightarrow> field_of ''version'' new = Some (JStr r)"
  by (cases prev)
    (auto simp add: new_version_obj_def Let_def andthen_eq_Inr dict_get_def split: if_splits)

lemma new_version_obj_minOSVersion:
  "new_version_obj d n r dt loc (JObj p) = Inr new \<Longrightarrow>
     field_of ''minOSVersion'' new =
       (if truthy (dict_get p ''minOSVersion'') then Some (dict_get p ''minOSVersion'') else None)"
  by (auto simp add: new_version_obj_obj)

lemma new_version_obj_no_prev:
  "new_version_obj d n r dt loc JNull = Inr new \<Longrightarrow> field_of ''minOSVersion'' new = None"
  by (auto simp add: new_version_obj_null)

lemma field_of_Some:
  "field_of k j = Some v \<Longrightarrow> \<exists>fs. j = JObj fs \<and> map_of fs k = Some v \<and> dict_get fs k = v"
  by (cases j) (simp_all add: dict_get_def)

lemma first_app_shape:
  assumes "first_app doc = Some app"
  shows "\<exists>root rest. doc = JObj root \<and> dict_get root ''apps'' = JArr (app # rest)"
proof -
  from assms obtain apps where a: "field_of ''apps'' doc = Some apps"
    by (cases "field_of ''apps'' doc") (simp_all add: first_app_def)
  then obtain root where root: "doc = JObj root" "dict_get root ''apps'' = apps"
    using field_of_Some by blast
  from assms a obtain rest where "apps = JArr (app # rest)"
    by (cases apps rule: item0.cases) (simp_all add: first_app_def)
  with root show ?thesis by blast
qed

lemma versions_of_shape:
  assumes "versions_of doc = Some vs"
  shows "\<exists>root fs rest. doc = JObj root \<and> dict_get root ''apps'' = JArr (JObj fs # rest) \<and>
           dict_get fs ''versions'' = JArr vs"
proof -
  from assms obtain app where app: "first_app doc = Some app"
    by (cases "first_app doc") (simp_all add: versions_of_def)
  from assms app obtain v where v: "field_of ''versions'' app = Some v"
    by (cases "field_of ''versions'' app") (simp_all add: versions_of_def)
  from assms app v have "v = JArr vs"
    by (cases v) (simp_all add: versions_of_def)
  with v obtain fs where "app = JObj fs" "dict_get fs ''versions'' = JArr vs"
    using field_of_Some by blast
  with first_app_shape [OF app] show ?thesis by blast
qed

lemma first_app_written:
  assumes "dict_get root ''apps'' = JArr (a # rest)"
  shows "first_app (JObj (AList.update ''apps'' (JArr (app' # rest)) root)) = Some app'"
  by (simp add: first_app_def update_conv')

lemma versions_of_written:
  assumes "dict_get root ''apps'' = JArr (a # rest)"
  shows "versions_of (JObj (AList.update ''apps''
           (JArr (JObj (AList.update ''versions'' (JArr X) fs') # rest)) root)) = Some X"
  by (simp add: versions_of_def first_app_def update_conv')

lemma main_wellformed:
  assumes doc: "repo_json call = Document (JObj root)"
    and apps: "dict_get root ''apps'' = JArr (JObj fs # rest)"
    and rel: "or_else (arg_release_tag call) (env_RELEASE_TAG call) = Some release" "release \<noteq> []"
    and sz: "arg_size call = Some n"
    and shape: "dict_get fs ''versions'' = JNull \<or> dict_get fs ''versions'' = JArr [] \<or>
                (\<exists>p vs. dict_get fs ''versions'' = JArr (JObj p # vs))"
  shows "\<exists>d prev new doc'.
           new_download (or_else (arg_catbox_url call) (env_CATBOX_URL call)) (JObj fs) = Inr d \<and>
           prev_version (JObj fs) = Inr prev \<and>
           new_version_obj d n release (clock call)
             (new_localized release (or_else (arg_release_notes call) (env_RELEASE_NOTES call)))
             prev = Inr new \<and>
           main call = \<lparr>status = Returned 0, stdout = [''repo.json updated''],
                         written = Some doc'\<rparr> \<and>
           versions_of doc' =
             Some (case dict_get fs ''versions'' of
                     JArr (JObj p # vs) \<Rightarrow>
                       if dict_get p ''version'' = JStr release then new # vs
                       else new # JObj p # vs
                   | _ \<Rightarrow> [new])"
proof -
  let ?catbox = "or_else (arg_catbox_url call) (env_CATBOX_URL call)"
  let ?notes = "or_else (arg_release_notes call) (env_RELEASE_NOTES call)"
  obtain d where d: "new_download ?catbox (JObj fs) = Inr d"
    using new_download_obj by blast
  obtain prev new fs' where prev: "prev_version (JObj fs) = Inr prev"
    and new: "new_version_obj d n release (clock call) (new_localized release ?notes) prev = Inr new"
    and upd: "update_app release ?catbox ?notes (Some n) (clock call) (JObj fs) =
             Inr (JObj (AList.update ''versions''
                    (JArr (case dict_get fs ''versions'' of
                             JArr (JObj p # vs) \<Rightarrow>
                               if dict_get p ''version'' = JStr release then new # vs
                               else new # JObj p # vs
                           | _ \<Rightarrow> [new])) fs'), True)"
    using update_app_wellformed [OF d shape, of n release "clock call" ?notes] by blast
  have "main call = \<lparr>status = Returned 0, stdout = [''repo.json updated''],
      written = Some (JObj (AList.update ''apps''
        (JArr (JObj (AList.update ''versions''
                    (JArr (case dict_get fs ''versions'' of
                             JArr (JObj p # vs) \<Rightarrow>
                               if dict_get p ''version'' = JStr release then new # vs
                               else new # JObj p # vs
                           | _ \<Rightarrow> [new])) fs') # rest)) root))\<rparr>"
    using main_on_first_app [OF doc apps rel] upd sz by simp
  then show ?thesis
    using d prev new versions_of_written [OF apps] by blast
qed

lemma versions_of_first_app:
  "first_app doc = Some (JObj fs) \<Longrightarrow>
     versions_of doc = (case map_of fs ''versions'' of Some (JArr vs) \<Rightarrow> Some vs | _ \<Rightarrow> None)"
  by (simp add: versions_of_def)

lemma expected_shape:
  assumes "first_app doc = Some (JObj fs)"
    and "field_of ''versions'' (JObj fs) = None \<or> versions_of doc = Some [] \<or>
         (\<exists>p vs. versions_of doc = Some (JObj p # vs))"
  shows "dict_get fs ''versions'' = JNull \<or> dict_get fs ''versions'' = JArr [] \<or>
         (\<exists>p vs. dict_get fs ''versions'' = JArr (JObj p # vs))"
  using assms(2) unfolding versions_of_first_app [OF assms(1)]
  by (auto simp add: dict_get_def split: option.splits json.splits)

text \<open>The definitions to unfold when a run is evaluated on a concrete manifest.\<close>

lemmas run_defs =
  main_def Let_def or_else_def invoke_def example_manifest_def old_entry_def manifest_with_def
  manifest_without_versions_def entry_with_min_def dict_get_def update_app_def new_download_def
  prev_version_def new_version_obj_def assign_if_differs_def update_versions_def
  top_version_def py_ne_def versions_of_def first_app_def

subsection \<open>The worked example\<close>

text \<open>
  Claim C2. On the example manifest (one app at version 1.0 with the single history entry
  1.0), a run with release tag 1.1, download URL \<^verbatim>\<open>https://x/y\<close> and size 999 returns 0
  and writes a manifest whose app has version 1.1, that download URL and size 999, and
  whose history has two entries: a new first entry of version 1.1, followed by the old
  entry 1.0 as it was. The release notes, the environment and the clock are arbitrary.
\<close>

theorem C2_worked_example:
  "main (call\<lparr>arg_release_tag := Some ''1.1'', arg_catbox_url := Some ''https://x/y'',
              arg_size := Some 999, repo_json := Document example_manifest\<rparr>) =
   \<lparr>status = Returned 0, stdout = [''repo.json updated''],
    written = Some (JObj [(''apps'', JArr [JObj
      [(''version'', JStr ''1.1''),
       (''downloadURL'', JStr ''https://x/y''),
       (''size'', JInt 999),
       (''versions'', JArr
          [JObj [(''downloadURL'', JStr ''https://x/y''),
                 (''size'', JInt 999),
                 (''version'', JStr ''1.1''),
                 (''buildVersion'', JStr ''1''),
                 (''date'', JStr (clock call)),
                 (''localizedDescription'',
                  JStr (new_localized ''1.1''
                         (or_else (arg_release_notes call) (env_RELEASE_NOTES call))))],
           old_entry]),
       (''versionDate'', JStr (clock call))]])])\<rparr>"
  by (simp add: main_def Let_def or_else_def example_manifest_def old_entry_def dict_get_def
      update_app_def new_download_def prev_version_def new_version_obj_def
      assign_if_differs_def update_versions_def top_version_def py_ne_def)

subsection \<open>Missing inputs\<close>

text \<open>
  With a manifest of the expected shape and a release tag, a run without \<^verbatim>\<open>--size\<close>
  reaches line 66 and ends there in \<^verbatim>\<open>NameError\<close>: nothing is printed to standard
  output and nothing is written.
\<close>

lemma size_missing_raises_NameError:
  assumes "repo_json call = Document (JObj root)"
    and "dict_get root ''apps'' = JArr (JObj fs # rest)"
    and "or_else (arg_release_tag call) (env_RELEASE_TAG call) = Some release"
    and "release \<noteq> []"
    and "arg_size call = None"
  shows "main call = \<lparr>status = Raised NameError, stdout = [], written = None\<rparr>"
proof -
  obtain d where "new_download (or_else (arg_catbox_url call) (env_CATBOX_URL call)) (JObj fs) = Inr d"
    using new_download_obj by blast
  then show ?thesis
    using assms by (simp add: main_on_first_app update_app_def raises_def)
qed

text \<open>
  Claim C1, amended. A run without \<^verbatim>\<open>--size\<close> never writes the manifest, and when a
  release tag is supplied (by flag or environment) the process exits with status 1.
\<close>

theorem C1_size_missing_amended:
  assumes "arg_size call = None"
  shows "written (main call) = None \<and>
         (or_else (arg_release_tag call) (env_RELEASE_TAG call) = Some release \<and> release \<noteq> []
            \<longrightarrow> exit_code (status (main call)) = 1)"
proof (cases call rule: main_cases)
  case (failed msg)
  then show ?thesis by (simp add: returns_def)
next
  case (raised e)
  then show ?thesis by (simp add: raises_def)
next
  case (nothing_to_do data)
  then show ?thesis by (auto simp add: returns_def)
next
  case (updated root fs rest release n app')
  then show ?thesis using assms by simp
qed

text \<open>
  The amended claim C1 at a concrete run: release tag 1.1, no size, the example manifest.
\<close>

theorem C1_size_missing_witness:
  "arg_size (invoke (Some ''1.1'') None (Document example_manifest)) = None \<and>
   or_else (arg_release_tag (invoke (Some ''1.1'') None (Document example_manifest)))
           (env_RELEASE_TAG (invoke (Some ''1.1'') None (Document example_manifest))) = Some ''1.1'' \<and>
   written (main (invoke (Some ''1.1'') None (Document example_manifest))) = None \<and>
   exit_code (status (main (invoke (Some ''1.1'') None (Document example_manifest)))) = 1"
  using C1_size_missing_amended [of "invoke (Some ''1.1'') None (Document example_manifest)" "''1.1''"]
  by (simp add: invoke_def or_else_def)

text \<open>
  Claim C1 as stated fails: with neither size nor release tag and the manifest present,
  the run is the no-op and the exit status is 0.
\<close>

theorem C1_counterexample:
  "arg_size (invoke None None (Document example_manifest)) = None \<and>
   exit_code (status (main (invoke None None (Document example_manifest)))) = 0"
  by (simp add: invoke_def main_def or_else_def returns_def)

text \<open>
  Claim C6, amended. When the release tag is supplied neither by flag nor by the
  environment and the manifest file exists and parses, the run prints the explanatory
  message, returns 0 and writes nothing.
\<close>

theorem C6_no_release_amended:
  assumes "arg_release_tag call = None" and "env_RELEASE_TAG call = None"
    and "repo_json call = Document data"
  shows "status (main call) = Returned 0 \<and>
         stdout (main call) = [''RELEASE_TAG not provided; nothing to do''] \<and>
         written (main call) = None"
  using assms main_no_release [of call data] by (simp add: or_else_def returns_def)

text \<open>The amended claim C6 at a concrete run: no release tag, the example manifest.\<close>

theorem C6_no_release_witness:
  "arg_release_tag (invoke None (Some 999) (Document example_manifest)) = None \<and>
   env_RELEASE_TAG (invoke None (Some 999) (Document example_manifest)) = None \<and>
   status (main (invoke None (Some 999) (Document example_manifest))) = Returned 0 \<and>
   stdout (main (invoke None (Some 999) (Document example_manifest))) =
     [''RELEASE_TAG not provided; nothing to do''] \<and>
   written (main (invoke None (Some 999) (Document example_manifest))) = None"
  using C6_no_release_amended [of "invoke None (Some 999) (Document example_manifest)" example_manifest]
  by (simp add: invoke_def)

text \<open>
  Claim C6 as stated fails: with no release tag and no manifest file the exit status
  is 1.
\<close>

theorem C6_counterexample:
  "arg_release_tag (invoke None (Some 999) Missing) = None \<and>
   env_RELEASE_TAG (invoke None (Some 999) Missing) = None \<and>
   exit_code (status (main (invoke None (Some 999) Missing))) = 1"
  by (simp add: invoke_def main_def returns_def)

text \<open>
  Claim C10. The manifest is looked for before the release tag: a missing manifest ends
  the run with the not-found message and status 1 whatever the release tag is, and
  without a release tag the exit status is 0 exactly when the manifest exists and parses.
\<close>

theorem C10_manifest_checked_first:
  "(repo_json call = Missing \<longrightarrow>
      status (main call) = Returned 1 \<and>
      stdout (main call) = [''repo.json not found at repo.json''] \<and>
      written (main call) = None) \<and>
   (or_else (arg_release_tag call) (env_RELEASE_TAG call) = None \<or>
    or_else (arg_release_tag call) (env_RELEASE_TAG call) = Some [] \<longrightarrow>
      (exit_code (status (main call)) = 0) = (\<exists>data. repo_json call = Document data))"
proof (cases call rule: main_cases)
  case (failed msg)
  then show ?thesis by (auto simp add: returns_def main_def Let_def)
next
  case (raised e)
  have "\<not> (\<exists>data. repo_json call = Document data)"
    if "or_else (arg_release_tag call) (env_RELEASE_TAG call) = None \<or>
        or_else (arg_release_tag call) (env_RELEASE_TAG call) = Some []"
  proof
    assume "\<exists>data. repo_json call = Document data"
    then obtain data where "repo_json call = Document data" by blast
    from main_no_release [OF this that] raised(1) show False
      by (simp add: returns_def raises_def)
  qed
  with raised show ?thesis by (auto simp add: raises_def)
next
  case (nothing_to_do data)
  then show ?thesis by (auto simp add: returns_def)
next
  case (updated root fs rest release n app')
  then show ?thesis by auto
qed

text \<open>Claim C10 at a concrete run: neither manifest nor release tag.\<close>

theorem C10_manifest_checked_first_witness:
  "repo_json (invoke None None Missing) = Missing \<and>
   or_else (arg_release_tag (invoke None None Missing)) (env_RELEASE_TAG (invoke None None Missing)) = None \<and>
   status (main (invoke None None Missing)) = Returned 1 \<and>
   stdout (main (invoke None None Missing)) = [''repo.json not found at repo.json''] \<and>
   written (main (invoke None None Missing)) = None \<and>
   exit_code (status (main (invoke None None Missing))) \<noteq> 0"
  using C10_manifest_checked_first [of "invoke None None Missing"]
  by (simp add: invoke_def or_else_def)

subsection \<open>The version history after a run\<close>

text \<open>
  Claim C3. With release tag and size provided, when the history of the first app is
  non-empty and its first entry is an object whose \<^verbatim>\<open>version\<close> is not the release tag,
  the run returns 0 and writes a manifest whose history is one entry longer: a new first
  entry whose \<^verbatim>\<open>version\<close> is the release tag, followed by all the old entries, unchanged
  and in their order.
\<close>

theorem C3_prepend_when_top_differs:
  assumes "repo_json call = Document doc"
    and "or_else (arg_release_tag call) (env_RELEASE_TAG call) = Some release"
    and "release \<noteq> []"
    and "arg_size call = Some n"
    and "versions_of doc = Some (JObj v0 # vs)"
    and "field_of ''version'' (JObj v0) \<noteq> Some (JStr release)"
  shows "\<exists>doc' new.
           status (main call) = Returned 0 \<and> written (main call) = Some doc' \<and>
           versions_of doc' = Some (new # JObj v0 # vs) \<and>
           length (new # JObj v0 # vs) = length (JObj v0 # vs) + 1 \<and>
           field_of ''version'' new = Some (JStr release)"
proof -
  obtain root fs rest where doc: "repo_json call = Document (JObj root)"
    and apps: "dict_get root ''apps'' = JArr (JObj fs # rest)"
    and vs: "dict_get fs ''versions'' = JArr (JObj v0 # vs)"
    using versions_of_shape [OF assms(5)] assms(1) by auto
  have differs: "dict_get v0 ''version'' \<noteq> JStr release"
    using assms(6) assms(3) by (auto simp add: dict_get_def split: option.splits)
  from main_wellformed [OF doc apps assms(2,3,4)] vs differs
  show ?thesis by (auto dest: new_version_obj_version)
qed


text \<open>
  Claim C4. With release tag and size provided, when the first entry of the history is an
  object whose \<^verbatim>\<open>version\<close> is the release tag, the run returns 0 and writes a manifest
  whose history has the old length: the first entry is the newly built version entry,
  every other entry is as it was.
\<close>

theorem C4_replace_when_top_equal:
  assumes "repo_json call = Document doc"
    and "or_else (arg_release_tag call) (env_RELEASE_TAG call) = Some release"
    and "release \<noteq> []"
    and "arg_size call = Some n"
    and "versions_of doc = Some (JObj v0 # vs)"
    and "field_of ''version'' (JObj v0) = Some (JStr release)"
  shows "\<exists>app d new doc'.
           first_app doc = Some app \<and>
           new_download (or_else (arg_catbox_url call) (env_CATBOX_URL call)) app = Inr d \<and>
           new_version_obj d n release (clock call)
             (new_localized release (or_else (arg_release_notes call) (env_RELEASE_NOTES call)))
             (JObj v0) = Inr new \<and>
           status (main call) = Returned 0 \<and> written (main call) = Some doc' \<and>
           versions_of doc' = Some (new # vs) \<and>
           length (new # vs) = length (JObj v0 # vs)"
proof -
  obtain root fs rest where root: "doc = JObj root"
    and apps: "dict_get root ''apps'' = JArr (JObj fs # rest)"
    and vs: "dict_get fs ''versions'' = JArr (JObj v0 # vs)"
    using versions_of_shape [OF assms(5)] by auto
  have doc: "repo_json call = Document (JObj root)"
    using assms(1) root by simp
  have app: "first_app doc = Some (JObj fs)"
    using root apps by (simp add: first_app_def dict_get_def split: option.splits)
  have same: "dict_get v0 ''version'' = JStr release"
    using assms(6) by (simp add: dict_get_def)
  have prev: "prev_version (JObj fs) = Inr (JObj v0)"
    using vs by (simp add: prev_version_first dict_get_arr)
  from main_wellformed [OF doc apps assms(2,3,4)] vs same prev app
  show ?thesis by auto
qed

text \<open>
  Claim C5. With release tag and size provided, when the first app has no \<^verbatim>\<open>versions\<close>
  field or an empty history, the run returns 0 and writes a manifest whose history is
  exactly one entry, with \<^verbatim>\<open>version\<close> the release tag.
\<close>

theorem C5_single_entry_when_no_history:
  assumes "repo_json call = Document doc"
    and "or_else (arg_release_tag call) (env_RELEASE_TAG call) = Some release"
    and "release \<noteq> []"
    and "arg_size call = Some n"
    and "first_app doc = Some (JObj fs)"
    and "field_of ''versions'' (JObj fs) = None \<or> versions_of doc = Some []"
  shows "\<exists>doc' new.
           status (main call) = Returned 0 \<and> written (main call) = Some doc' \<and>
           versions_of doc' = Some [new] \<and>
           field_of ''version'' new = Some (JStr release)"
proof -
  obtain root rest where doc: "repo_json call = Document (JObj root)"
    and apps: "dict_get root ''apps'' = JArr (JObj fs # rest)"
    using first_app_shape [OF assms(5)] assms(1) by auto
  have shape: "dict_get fs ''versions'' = JNull \<or> dict_get fs ''versions'' = JArr []"
    using expected_shape [OF assms(5)] assms(6)
    unfolding versions_of_first_app [OF assms(5)]
    by (auto simp add: dict_get_def split: option.splits json.splits)
  then have "dict_get fs ''versions'' = JNull \<or> dict_get fs ''versions'' = JArr [] \<or>
         (\<exists>p vs. dict_get fs ''versions'' = JArr (JObj p # vs))"
    by blast
  from main_wellformed [OF doc apps assms(2,3,4) this] shape
  show ?thesis by (auto dest: new_version_obj_version)
qed

text \<open>
  Claim C7, amended. On a manifest of the expected shape, the new first entry carries
  \<^verbatim>\<open>minOSVersion\<close> exactly when the previous topmost entry carried one that Python
  counts as true (for a string: a non-empty one), and then with that value; when there
  was no previous entry, or its \<^verbatim>\<open>minOSVersion\<close> was missing or empty, the new entry
  has no such field.
\<close>

theorem C7_minOSVersion_amended:
  assumes "repo_json call = Document doc"
    and "or_else (arg_release_tag call) (env_RELEASE_TAG call) = Some release"
    and "release \<noteq> []"
    and "arg_size call = Some n"
    and "first_app doc = Some (JObj fs)"
    and "field_of ''versions'' (JObj fs) = None \<or> versions_of doc = Some [] \<or>
         (\<exists>p vs. versions_of doc = Some (JObj p # vs))"
  shows "\<exists>doc' new older.
           written (main call) = Some doc' \<and> versions_of doc' = Some (new # older) \<and>
           field_of ''minOSVersion'' new =
             (case versions_of doc of
                Some (prev # vs) \<Rightarrow>
                  (case field_of ''minOSVersion'' prev of
                     Some m \<Rightarrow> if truthy m then Some m else None
                   | None \<Rightarrow> None)
              | _ \<Rightarrow> None)"
proof -
  obtain root rest where doc: "repo_json call = Document (JObj root)"
    and apps: "dict_get root ''apps'' = JArr (JObj fs # rest)"
    using first_app_shape [OF assms(5)] assms(1) by auto
  note shape = expected_shape [OF assms(5,6)]
  obtain d prev new doc' where prev: "prev_version (JObj fs) = Inr prev"
    and new: "new_version_obj d n release (clock call)
             (new_localized release (or_else (arg_release_notes call) (env_RELEASE_NOTES call)))
             prev = Inr new"
    and run: "main call = \<lparr>status = Returned 0, stdout = [''repo.json updated''],
                         written = Some doc'\<rparr>"
    and vs': "versions_of doc' =
             Some (case dict_get fs ''versions'' of
                     JArr (JObj p # vs) \<Rightarrow>
                       if dict_get p ''version'' = JStr release then new # vs
                       else new # JObj p # vs
                   | _ \<Rightarrow> [new])"
    using main_wellformed [OF doc apps assms(2,3,4) shape] by blast
  from shape consider
      (none) "dict_get fs ''versions'' = JNull \<or> dict_get fs ''versions'' = JArr []"
    | (some) p vs where "dict_get fs ''versions'' = JArr (JObj p # vs)"
    by blast
  then show ?thesis
  proof cases
    case none
    then have "prev = JNull"
      using prev by (auto simp add: prev_version_absent prev_version_empty dict_get_arr)
    then have "field_of ''minOSVersion'' new = None"
      using new by (simp add: new_version_obj_no_prev)
    moreover have "versions_of doc = None \<or> versions_of doc = Some []"
      using none unfolding versions_of_first_app [OF assms(5)]
      by (auto simp add: dict_get_def split: option.splits json.splits)
    moreover have "versions_of doc' = Some [new]"
      using vs' none by auto
    ultimately show ?thesis using run by auto
  next
    case some
    then have "prev = JObj p"
      using prev by (simp add: prev_version_first dict_get_arr)
    then have "field_of ''minOSVersion'' new =
       (if truthy (dict_get p ''minOSVersion'') then Some (dict_get p ''minOSVersion'') else None)"
      using new by (simp add: new_version_obj_minOSVersion)
    moreover have "versions_of doc = Some (JObj p # vs)"
      using some unfolding versions_of_first_app [OF assms(5)]
      by (simp add: dict_get_arr)
    moreover have "\<exists>older. versions_of doc' = Some (new # older)"
      using vs' some by simp
    ultimately show ?thesis
      using run by (auto simp add: dict_get_def split: option.splits)
  qed
qed

subsection \<open>What a run leaves untouched, and when it writes\<close>

text \<open>
  Claim C8. A run that writes the manifest changes nothing but the first app: the written
  document has the root fields of the loaded one, in the same order and with the same
  values except for \<^verbatim>\<open>apps\<close>, and its \<^verbatim>\<open>apps\<close> array is the loaded one with the
  first element replaced. Nothing else is read either: on any other document with the
  same first app the run ends the same way, prints the same and replaces the first app
  by the same object.
\<close>

theorem C8_only_first_app_changes:
  assumes "written (main call) = Some doc'"
  shows "\<exists>root root' app app' rest.
           repo_json call = Document (JObj root) \<and> doc' = JObj root' \<and>
           map_of root ''apps'' = Some (JArr (app # rest)) \<and>
           map_of root' ''apps'' = Some (JArr (app' # rest)) \<and>
           map fst root' = map fst root \<and>
           (\<forall>k. k \<noteq> ''apps'' \<longrightarrow> map_of root' k = map_of root k) \<and>
           (\<forall>root2 rest2.
              map_of root2 ''apps'' = Some (JArr (app # rest2)) \<longrightarrow>
                main (call\<lparr>repo_json := Document (JObj root2)\<rparr>) =
                  \<lparr>status = status (main call), stdout = stdout (main call),
                   written = Some (JObj (AList.update ''apps'' (JArr (app' # rest2)) root2))\<rparr>)"
proof (cases call rule: main_cases)
  case (failed msg)
  then show ?thesis using assms by (simp add: returns_def)
next
  case (raised e)
  then show ?thesis using assms by (simp add: raises_def)
next
  case (nothing_to_do data)
  then show ?thesis using assms by (simp add: returns_def)
next
  case (updated root fs rest release n app')
  let ?root' = "AList.update ''apps'' (JArr (app' # rest)) root"
  have apps: "map_of root ''apps'' = Some (JArr (JObj fs # rest))"
    using updated(2) by (rule dict_get_arr)
  then have "''apps'' \<in> set (map fst root)"
    by (auto dest: map_of_SomeD intro: rev_image_eqI)
  then have keys: "map fst ?root' = map fst root"
    by (simp add: update_keys)
  have others: "\<forall>k. k \<noteq> ''apps'' \<longrightarrow> map_of ?root' k = map_of root k"
    by (simp add: update_conv')
  have indep: "main (call\<lparr>repo_json := Document (JObj root2)\<rparr>) =
      \<lparr>status = status (main call), stdout = stdout (main call),
       written = Some (JObj (AList.update ''apps'' (JArr (app' # rest2)) root2))\<rparr>"
    if "map_of root2 ''apps'' = Some (JArr (JObj fs # rest2))" for root2 rest2
  proof -
    let ?call2 = "call\<lparr>repo_json := Document (JObj root2)\<rparr>"
    have "dict_get root2 ''apps'' = JArr (JObj fs # rest2)"
      using that by (simp add: dict_get_def)
    then show ?thesis
      using main_on_first_app [of ?call2 root2 "JObj fs" rest2 release] updated(3,4,6,7)
      by simp
  qed
  show ?thesis
    using updated(1,7) assms apps keys others indep
    by (intro exI [of _ root] exI [of _ ?root'] exI [of _ "JObj fs"] exI [of _ app']
        exI [of _ rest]) (simp add: update_conv')
qed

text \<open>
  Claim C9. On a run with the manifest present and parsed, a release tag and a size, the
  flag \<^verbatim>\<open>changed\<close> is set whenever the update of the app completes, the message
  \<^verbatim>\<open>No changes required for repo.json\<close> is never printed, a run that returns 0 has
  rewritten the manifest and reported it, and on a manifest of the expected shape (the
  first app an object whose history is missing, empty, or a list starting with an
  object) the run does return 0.
\<close>

theorem C9_changed_always_set:
  assumes "repo_json call = Document doc"
    and "or_else (arg_release_tag call) (env_RELEASE_TAG call) = Some release"
    and "release \<noteq> []"
    and "arg_size call = Some n"
  shows "(\<forall>app app' changed.
            update_app release (or_else (arg_catbox_url call) (env_CATBOX_URL call))
              (or_else (arg_release_notes call) (env_RELEASE_NOTES call))
              (arg_size call) (clock call) app = Inr (app', changed) \<longrightarrow> changed) \<and>
         stdout (main call) \<noteq> [''No changes required for repo.json''] \<and>
         (status (main call) = Returned 0 \<longrightarrow>
            stdout (main call) = [''repo.json updated''] \<and> written (main call) \<noteq> None) \<and>
         (\<forall>fs. first_app doc = Some (JObj fs) \<and>
               (field_of ''versions'' (JObj fs) = None \<or> versions_of doc = Some [] \<or>
                (\<exists>p vs. versions_of doc = Some (JObj p # vs))) \<longrightarrow>
               status (main call) = Returned 0)"
proof (intro conjI allI impI)
  fix app app' changed
  assume "update_app release (or_else (arg_catbox_url call) (env_CATBOX_URL call))
              (or_else (arg_release_notes call) (env_RELEASE_NOTES call))
              (arg_size call) (clock call) app = Inr (app', changed)"
  then show changed by (rule update_app_changed)
next
  show "stdout (main call) \<noteq> [''No changes required for repo.json'']"
    by (cases call rule: main_cases) (auto simp add: returns_def raises_def)
next
  assume "status (main call) = Returned 0"
  then show "stdout (main call) = [''repo.json updated'']"
    using assms(2,3) by (cases call rule: main_cases) (auto simp add: returns_def raises_def)
next
  assume "status (main call) = Returned 0"
  then show "written (main call) \<noteq> None"
    using assms(2,3) by (cases call rule: main_cases) (auto simp add: returns_def raises_def)
next
  fix fs
  assume a: "first_app doc = Some (JObj fs) \<and>
               (field_of ''versions'' (JObj fs) = None \<or> versions_of doc = Some [] \<or>
                (\<exists>p vs. versions_of doc = Some (JObj p # vs)))"
  then obtain root rest where doc: "repo_json call = Document (JObj root)"
    and apps: "dict_get root ''apps'' = JArr (JObj fs # rest)"
    using first_app_shape [of doc "JObj fs"] assms(1) by auto
  from a have shape: "dict_get fs ''versions'' = JNull \<or> dict_get fs ''versions'' = JArr [] \<or>
         (\<exists>p vs. dict_get fs ''versions'' = JArr (JObj p # vs))"
    using expected_shape by blast
  from main_wellformed [OF doc apps assms(2,3,4) shape]
  show "status (main call) = Returned 0" by auto
qed

subsection \<open>Concrete runs\<close>

text \<open>
  Claim C3 on the example manifest, release tag 1.1: the history becomes the new entry followed by the old one.
\<close>

theorem C3_prepend_witness:
  "versions_of example_manifest = Some [old_entry] \<and>
   field_of ''version'' old_entry \<noteq> Some (JStr ''1.1'') \<and>
   (\<exists>doc' new.
      status (main (invoke (Some ''1.1'') (Some 999) (Document example_manifest))) = Returned 0 \<and>
      written (main (invoke (Some ''1.1'') (Some 999) (Document example_manifest))) = Some doc' \<and>
      versions_of doc' = Some [new, old_entry] \<and>
      field_of ''version'' new = Some (JStr ''1.1''))"
  using C3_prepend_when_top_differs
    [of "invoke (Some ''1.1'') (Some 999) (Document example_manifest)" example_manifest
      "''1.1''" 999
      "[(''version'', JStr ''1.0''), (''size'', JInt 10), (''downloadURL'', JStr ''old''),
        (''buildVersion'', JStr ''1''), (''date'', JStr ''2024-01-01T00:00:00+00:00''),
        (''localizedDescription'', JStr ''old desc'')]" "[]"]
  by (simp add: invoke_def or_else_def example_manifest_def old_entry_def versions_of_def
      first_app_def)

text \<open>
  Claim C4 on the example manifest, release tag 1.0 (the version of its topmost entry): the history keeps its length and the old entry is gone.
\<close>

theorem C4_replace_witness:
  "versions_of example_manifest = Some [old_entry] \<and>
   field_of ''version'' old_entry = Some (JStr ''1.0'') \<and>
   (\<exists>doc' new.
      status (main (invoke (Some ''1.0'') (Some 999) (Document example_manifest))) = Returned 0 \<and>
      written (main (invoke (Some ''1.0'') (Some 999) (Document example_manifest))) = Some doc' \<and>
      versions_of doc' = Some [new] \<and> new \<noteq> old_entry)"
  using C4_replace_when_top_equal
    [of "invoke (Some ''1.0'') (Some 999) (Document example_manifest)" example_manifest
      "''1.0''" 999
      "[(''version'', JStr ''1.0''), (''size'', JInt 10), (''downloadURL'', JStr ''old''),
        (''buildVersion'', JStr ''1''), (''date'', JStr ''2024-01-01T00:00:00+00:00''),
        (''localizedDescription'', JStr ''old desc'')]" "[]"]
  by (auto simp add: invoke_def or_else_def example_manifest_def old_entry_def versions_of_def
      first_app_def new_download_def new_version_obj_def dict_get_def)

text \<open>
  Claim C5 on a manifest whose app has no history.
\<close>

theorem C5_single_entry_witness:
  "first_app manifest_without_versions = Some (JObj [(''version'', JStr ''1.0'')]) \<and>
   field_of ''versions'' (JObj [(''version'', JStr ''1.0'')]) = None \<and>
   (\<exists>doc' new.
      status (main (invoke (Some ''1.1'') (Some 999) (Document manifest_without_versions))) =
        Returned 0 \<and>
      written (main (invoke (Some ''1.1'') (Some 999) (Document manifest_without_versions))) =
        Some doc' \<and>
      versions_of doc' = Some [new] \<and>
      field_of ''version'' new = Some (JStr ''1.1''))"
  using C5_single_entry_when_no_history
    [of "invoke (Some ''1.1'') (Some 999) (Document manifest_without_versions)"
      manifest_without_versions "''1.1''" 999 "[(''version'', JStr ''1.0'')]"]
  by (simp add: invoke_def or_else_def manifest_without_versions_def first_app_def)

text \<open>
  The amended claim C7 when the previous topmost entry carries \<^verbatim>\<open>minOSVersion\<close> 15.0: the new entry carries it too.
\<close>

theorem C7_minOSVersion_witness:
  "versions_of (manifest_with [JObj (entry_with_min ''15.0'')]) =
     Some [JObj (entry_with_min ''15.0'')] \<and>
   field_of ''minOSVersion'' (JObj (entry_with_min ''15.0'')) = Some (JStr ''15.0'') \<and>
   (\<exists>doc' new older.
      written (main (invoke (Some ''1.1'') (Some 999)
                 (Document (manifest_with [JObj (entry_with_min ''15.0'')])))) = Some doc' \<and>
      versions_of doc' = Some (new # older) \<and>
      field_of ''minOSVersion'' new = Some (JStr ''15.0''))"
  using C7_minOSVersion_amended
    [of "invoke (Some ''1.1'') (Some 999)
           (Document (manifest_with [JObj (entry_with_min ''15.0'')]))"
      "manifest_with [JObj (entry_with_min ''15.0'')]" "''1.1''" 999
      "[(''version'', JStr ''1.0''), (''versions'', JArr [JObj (entry_with_min ''15.0'')])]"]
  by (simp add: invoke_def or_else_def manifest_with_def entry_with_min_def versions_of_def
      first_app_def)

text \<open>
  Claim C7 as stated fails: when the previous topmost entry carries the empty string as \<^verbatim>\<open>minOSVersion\<close>, the new first entry has no such field, while the old entry keeps its own.
\<close>

theorem C7_counterexample:
  "map_option (map (field_of ''minOSVersion''))
     (versions_of (manifest_with [JObj (entry_with_min [])])) = Some [Some (JStr [])] \<and>
   map_option (map (field_of ''minOSVersion''))
     (Option.bind (written (main (invoke (Some ''1.1'') (Some 999)
        (Document (manifest_with [JObj (entry_with_min [])]))))) versions_of) =
     Some [None, Some (JStr [])]"
  by (simp add: run_defs)

text \<open>
  Claim C8 on the run of the worked example.
\<close>

theorem C8_only_first_app_witness:
  "\<exists>doc' root root' app app' rest.
     written (main (invoke (Some ''1.1'') (Some 999) (Document example_manifest))) = Some doc' \<and>
     repo_json (invoke (Some ''1.1'') (Some 999) (Document example_manifest)) =
       Document (JObj root) \<and>
     doc' = JObj root' \<and>
     map_of root ''apps'' = Some (JArr (app # rest)) \<and>
     map_of root' ''apps'' = Some (JArr (app' # rest)) \<and>
     map fst root' = map fst root"
proof -
  obtain doc' where w:
    "written (main (invoke (Some ''1.1'') (Some 999) (Document example_manifest))) = Some doc'"
    by (simp add: run_defs)
  from C8_only_first_app_changes [OF w] show ?thesis
    apply (elim exE conjE)
    apply (intro exI conjI)
         apply (rule w)
        apply assumption+
    done
qed

text \<open>
  Claim C9 on the run of the worked example.
\<close>

theorem C9_changed_always_set_witness:
  "repo_json (invoke (Some ''1.1'') (Some 999) (Document example_manifest)) =
     Document example_manifest \<and>
   arg_size (invoke (Some ''1.1'') (Some 999) (Document example_manifest)) = Some 999 \<and>
   first_app example_manifest \<noteq> None \<and>
   versions_of example_manifest = Some [old_entry] \<and>
   status (main (invoke (Some ''1.1'') (Some 999) (Document example_manifest))) = Returned 0 \<and>
   stdout (main (invoke (Some ''1.1'') (Some 999) (Document example_manifest))) =
     [''repo.json updated''] \<and>
   written (main (invoke (Some ''1.1'') (Some 999) (Document example_manifest))) \<noteq> None"
  using C9_changed_always_set
    [of "invoke (Some ''1.1'') (Some 999) (Document example_manifest)" example_manifest
      "''1.1''" 999]
  by (simp add: invoke_def or_else_def example_manifest_def old_entry_def versions_of_def
      first_app_def)

end
